theory Spec2Isabelle
  imports Main "HOL-Library.AList" "HOL-Library.Sublist"
begin

section \<open>Text and the library calls of gui.py\<close>

text \<open>
  Python text is modelled by HOL strings holding its UTF-8 bytes. The JSON syntax
  characters, the digits, the whitespace and the control characters tested by the
  scanner are all ASCII, so scanning bytes and scanning code points agree.
\<close>

subsection \<open>bytes.decode()\<close>

text \<open>
  \<open>utf8_ok n (lo, hi) bs\<close>: \<open>n\<close> continuation bytes are still owed, the next of them
  within \<open>lo..hi\<close>. The ranges exclude overlong forms, surrogates and code points
  above U+10FFFF, as the strict codec does.
\<close>

fun utf8_ok :: "nat \<Rightarrow> nat \<times> nat \<Rightarrow> string \<Rightarrow> bool" where
  "utf8_ok 0 r [] = True"
| "utf8_ok (Suc n) r [] = False"
| "utf8_ok 0 r (c # cs) =
     (let b = (of_char c :: nat) in
      if b < 0x80 then utf8_ok 0 (0x80, 0xBF) cs
      else if 0xC2 \<le> b \<and> b \<le> 0xDF then utf8_ok 1 (0x80, 0xBF) cs
      else if b = 0xE0 then utf8_ok 2 (0xA0, 0xBF) cs
      else if b = 0xED then utf8_ok 2 (0x80, 0x9F) cs
      else if 0xE1 \<le> b \<and> b \<le> 0xEF then utf8_ok 2 (0x80, 0xBF) cs
      else if b = 0xF0 then utf8_ok 3 (0x90, 0xBF) cs
      else if b = 0xF4 then utf8_ok 3 (0x80, 0x8F) cs
      else if 0xF1 \<le> b \<and> b \<le> 0xF3 then utf8_ok 3 (0x80, 0xBF) cs
      else False)"
| "utf8_ok (Suc n) r (c # cs) =
     (let b = (of_char c :: nat) in
      fst r \<le> b \<and> b \<le> snd r \<and> utf8_ok n (0x80, 0xBF) cs)"

text \<open>\<open>data.decode()\<close>: the text, or None for UnicodeDecodeError.\<close>

definition decode :: "string \<Rightarrow> string option" where
  "decode bs = (if utf8_ok 0 (0x80, 0xBF) bs then Some bs else None)"

subsection \<open>Exceptions\<close>

text \<open>
  The exceptions that reach the handlers of gui.py, or escape them. In Python
  \<open>JSONDecodeError\<close> is a subclass of \<open>ValueError\<close>; here \<open>ValueError\<close> is one that
  is not a \<open>JSONDecodeError\<close>: what unpacking \<open>addr.split(":")\<close>, \<open>int(port)\<close> and the
  conversion of an over-long integer literal raise.
\<close>

datatype exn =
    Timeout | OSError string | ValueError | UnicodeDecodeError
  | JSONDecodeError | RecursionError

datatype 'a outcome = Returns 'a | Raises exn

subsection \<open>json.loads\<close>

text \<open>
  The values \<open>json.loads\<close> builds. A float keeps its literal (Python rounds it to a
  binary64); \<open>NaN\<close>, \<open>Infinity\<close> and \<open>-Infinity\<close>, which Python accepts, are floats too.
  An object is a dict: keys in order of first insertion, a repeated key keeps its
  place and takes the later value (\<open>AList.update\<close>).
\<close>

datatype json =
    JNull
  | JBool bool
  | JInt int
  | JFloat string
  | JStr string
  | JArr "json list"
  | JObj "(string \<times> json) list"

datatype token = LBrace | RBrace | LBrack | RBrack | Colon | Comma | Scalar json

text \<open>
  Two limits of the interpreter decide what \<open>json.loads\<close> raises besides
  \<open>JSONDecodeError\<close>. \<open>max_depth\<close>: how many arrays and objects the decoder can open
  one inside the other; opening one more raises \<open>RecursionError\<close> (it depends on the
  recursion limit and on the frames in use). \<open>max_digits\<close>: the most digits
  \<open>int()\<close> converts, \<open>sys.get_int_max_str_digits()\<close>; a longer integer literal raises
  \<open>ValueError\<close>, and 0 is no limit.
\<close>

record limits =
  max_depth :: nat
  max_digits :: nat

definition is_ws :: "char \<Rightarrow> bool" where
  "is_ws c = (c = CHR '' '' \<or> c = CHR 0x09 \<or> c = CHR 0x0A \<or> c = CHR 0x0D)"

definition is_digit :: "char \<Rightarrow> bool" where
  "is_digit c = (48 \<le> (of_char c :: nat) \<and> (of_char c :: nat) \<le> 57)"

definition digit_val :: "char \<Rightarrow> nat" where
  "digit_val c = of_char c - 48"

definition hex_val :: "char \<Rightarrow> nat option" where
  "hex_val c =
     (let b = (of_char c :: nat) in
      if 48 \<le> b \<and> b \<le> 57 then Some (b - 48)
      else if 65 \<le> b \<and> b \<le> 70 then Some (b - 55)
      else if 97 \<le> b \<and> b \<le> 102 then Some (b - 87)
      else None)"

text \<open>The four hexadecimal digits after \<open>\u\<close>.\<close>

fun hex4 :: "string \<Rightarrow> nat option" where
  "hex4 (a # b # c # d # _) =
     (case (hex_val a, hex_val b, hex_val c, hex_val d) of
        (Some x, Some y, Some z, Some w) \<Rightarrow> Some (((x * 16 + y) * 16 + z) * 16 + w)
      | _ \<Rightarrow> None)"
| "hex4 _ = None"

text \<open>
  The UTF-8 bytes of a code point. A lone surrogate, which a Python string can hold,
  takes the three-byte form.
\<close>

definition utf8 :: "nat \<Rightarrow> string" where
  "utf8 n =
     (if n < 0x80 then [char_of n]
      else if n < 0x800 then [char_of (0xC0 + n div 64), char_of (0x80 + n mod 64)]
      else if n < 0x10000 then
        [char_of (0xE0 + n div 4096), char_of (0x80 + n div 64 mod 64),
         char_of (0x80 + n mod 64)]
      else
        [char_of (0xF0 + n div 262144), char_of (0x80 + n div 4096 mod 64),
         char_of (0x80 + n div 64 mod 64), char_of (0x80 + n mod 64)])"

definition BACKSLASH :: "char \<Rightarrow> char option" where
  "BACKSLASH e =
     (if e = CHR 0x22 then Some (CHR 0x22)
      else if e = CHR 0x5C then Some (CHR 0x5C)
      else if e = CHR ''/'' then Some (CHR ''/'')
      else if e = CHR ''b'' then Some (CHR 0x08)
      else if e = CHR ''f'' then Some (CHR 0x0C)
      else if e = CHR ''n'' then Some (CHR 0x0A)
      else if e = CHR ''r'' then Some (CHR 0x0D)
      else if e = CHR ''t'' then Some (CHR 0x09)
      else None)"

text \<open>
  \<open>scanstring\<close> (strict): the text after the opening quote, up to the closing one.
  Returns the content and the rest of the input; None is JSONDecodeError
  (unterminated string, control character, bad escape).
\<close>

fun scanstring :: "string \<Rightarrow> string \<Rightarrow> (string \<times> string) option" where
  "scanstring acc [] = None"
| "scanstring acc (c # cs) =
     (if c = CHR 0x22 then Some (acc, cs)
      else if c = CHR 0x5C then
        (case cs of
           [] \<Rightarrow> None
         | e # r \<Rightarrow>
             if e = CHR ''u'' then
               (case hex4 r of
                  None \<Rightarrow> None
                | Some u \<Rightarrow>
                    if 0xD800 \<le> u \<and> u \<le> 0xDBFF \<and> take 2 (drop 4 r) = [CHR 0x5C, CHR ''u''] then
                      (case hex4 (drop 6 r) of
                         None \<Rightarrow> None
                       | Some u2 \<Rightarrow>
                           if 0xDC00 \<le> u2 \<and> u2 \<le> 0xDFFF then
                             scanstring
                               (acc @ utf8 (0x10000 + ((u - 0xD800) * 1024 + (u2 - 0xDC00))))
                               (drop 10 r)
                           else scanstring (acc @ utf8 u) (drop 4 r))
                    else scanstring (acc @ utf8 u) (drop 4 r))
             else
               (case BACKSLASH e of
                  None \<Rightarrow> None
                | Some x \<Rightarrow> scanstring (acc @ [x]) r))
      else if (of_char c :: nat) < 0x20 then None
      else scanstring (acc @ [c]) cs)"

text \<open>
  \<open>NUMBER_RE\<close>: \<open>(-?(?:0|[1-9][0-9]*))(\.[0-9]+)?([eE][-+]?[0-9]+)?\<close>, each group
  greedy. An integer literal is an \<open>int\<close>; with a fraction or an exponent, a float.
\<close>

definition int_part :: "string \<Rightarrow> (string \<times> string) option" where
  "int_part s =
     (case s of
        [] \<Rightarrow> None
      | d # r \<Rightarrow>
          if d = CHR ''0'' then Some ([d], r)
          else if is_digit d then Some (d # takeWhile is_digit r, dropWhile is_digit r)
          else None)"

definition frac_part :: "string \<Rightarrow> string \<times> string" where
  "frac_part s =
     (case s of
        c # r \<Rightarrow>
          if c = CHR ''.'' \<and> takeWhile is_digit r \<noteq> []
          then (c # takeWhile is_digit r, dropWhile is_digit r)
          else ([], s)
      | [] \<Rightarrow> ([], s))"

definition exp_part :: "string \<Rightarrow> string \<times> string" where
  "exp_part s =
     (case s of
        c # r \<Rightarrow>
          if c = CHR ''e'' \<or> c = CHR ''E'' then
            (let (sg, r') =
                   (case r of
                      x # r2 \<Rightarrow> if x = CHR ''-'' \<or> x = CHR ''+'' then ([x], r2) else ([], r)
                    | [] \<Rightarrow> ([], r))
             in if takeWhile is_digit r' \<noteq> []
                then (c # sg @ takeWhile is_digit r', dropWhile is_digit r')
                else ([], s))
          else ([], s)
      | [] \<Rightarrow> ([], s))"

definition digits_val :: "string \<Rightarrow> int" where
  "digits_val ds = int (foldl (\<lambda>a d. 10 * a + digit_val d) 0 ds)"

definition match_number :: "limits \<Rightarrow> string \<Rightarrow> (json \<times> string) outcome option" where
  "match_number lim s =
     (let (sg, s1) = (case s of c # r \<Rightarrow> if c = CHR ''-'' then ([c], r) else ([], s) | [] \<Rightarrow> ([], s))
      in case int_part s1 of
           None \<Rightarrow> None
         | Some (ip, s2) \<Rightarrow>
             (let (fp, s3) = frac_part s2; (ep, s4) = exp_part s3
              in if fp = [] \<and> ep = [] then
                   (if max_digits lim \<noteq> 0 \<and> max_digits lim < length ip
                    then Some (Raises ValueError)
                    else Some (Returns
                           (JInt (if sg = [] then digits_val ip else - digits_val ip), s4)))
                 else Some (Returns (JFloat (sg @ ip @ fp @ ep), s4))))"

text \<open>
  \<open>scan_once\<close>, for the values that are one token: a string, \<open>null\<close>, \<open>true\<close>,
  \<open>false\<close>, a number, \<open>NaN\<close>, \<open>Infinity\<close>, \<open>-Infinity\<close>, tried in this order.
\<close>

definition scan_scalar :: "limits \<Rightarrow> string \<Rightarrow> (json \<times> string) outcome" where
  "scan_scalar lim s =
     (case s of
        [] \<Rightarrow> Raises JSONDecodeError
      | c # cs \<Rightarrow>
          if c = CHR 0x22 then
            (case scanstring [] cs of
               None \<Rightarrow> Raises JSONDecodeError
             | Some (str, r) \<Rightarrow> Returns (JStr str, r))
          else if take 4 s = ''null'' then Returns (JNull, drop 4 s)
          else if take 4 s = ''true'' then Returns (JBool True, drop 4 s)
          else if take 5 s = ''false'' then Returns (JBool False, drop 5 s)
          else
            (case match_number lim s of
               Some x \<Rightarrow> x
             | None \<Rightarrow>
                 if take 3 s = ''NaN'' then Returns (JFloat ''NaN'', drop 3 s)
                 else if take 8 s = ''Infinity'' then Returns (JFloat ''Infinity'', drop 8 s)
                 else if take 9 s = ''-Infinity'' then Returns (JFloat ''-Infinity'', drop 9 s)
                 else Raises JSONDecodeError))"

lemma scanstring_shorter:
  "scanstring acc cs = Some (str, r) \<Longrightarrow> length r < Suc (length cs)"
proof (induction acc cs arbitrary: str r rule: scanstring.induct)
  case (1 acc)
  then show ?case by simp
next
  case (2 acc c cs)
  show ?case
  proof (cases "c = CHR 0x22")
    case True
    with "2.prems" show ?thesis by simp
  next
    case nq: False
    show ?thesis
    proof (cases "c = CHR 0x5C")
      case False
      with nq "2.prems" "2.IH"(5) [of str r] show ?thesis
        by (auto split: if_splits)
    next
      case bs: True
      then obtain e rest where cs: "cs = e # rest"
        using "2.prems" nq by (cases cs) auto
      show ?thesis
      proof (cases "e = CHR ''u''")
        case False
        then obtain x where x: "BACKSLASH e = Some x"
          using "2.prems" nq bs cs by (auto split: option.splits)
        with False nq bs cs "2.prems" "2.IH"(4) [of e rest x str r] show ?thesis
          by auto
      next
        case u: True
        then obtain n where n: "hex4 rest = Some n"
          using "2.prems" nq bs cs by (auto split: option.splits)
        show ?thesis
        proof (cases "0xD800 \<le> n \<and> n \<le> 0xDBFF \<and> take 2 (drop 4 rest) = [CHR 0x5C, CHR ''u'']")
          case False
          with u n nq bs cs "2.prems" "2.IH"(3) [of e rest n str r] show ?thesis
            by (auto split: if_splits)
        next
          case pair: True
          then obtain m where m: "hex4 (drop 6 rest) = Some m"
            using "2.prems" nq bs cs u n by (auto split: option.splits)
          show ?thesis
          proof (cases "0xDC00 \<le> m \<and> m \<le> 0xDFFF")
            case True
            with pair m u n nq bs cs "2.prems" "2.IH"(1) [of e rest n m str r] show ?thesis
              by auto
          next
            case False
            with pair m u n nq bs cs "2.prems" "2.IH"(2) [of e rest n m str r] show ?thesis
              by auto
          qed
        qed
      qed
    qed
  qed
qed

lemma int_part_shorter: "int_part s = Some (ip, r) \<Longrightarrow> length r < length s"
  by (auto simp: int_part_def less_Suc_eq_le length_dropWhile_le split: list.splits if_splits)

lemma frac_part_shorter: "frac_part s = (fp, r) \<Longrightarrow> length r \<le> length s"
  by (auto simp: frac_part_def le_SucI length_dropWhile_le split: list.splits if_splits)

lemma exp_part_shorter: "exp_part s = (ep, r) \<Longrightarrow> length r \<le> length s"
  by (auto simp: exp_part_def le_SucI length_dropWhile_le split: list.splits if_splits prod.splits)

lemma match_number_shorter:
  "match_number lim s = Some (Returns (v, r)) \<Longrightarrow> length r < length s"
proof -
  assume a: "match_number lim s = Some (Returns (v, r))"
  obtain sg s1 where s1: "(case s of c # r \<Rightarrow> if c = CHR ''-'' then ([c], r) else ([], s) | [] \<Rightarrow> ([], s)) = (sg, s1)"
    by (cases "(case s of c # r \<Rightarrow> if c = CHR ''-'' then ([c], r) else ([], s) | [] \<Rightarrow> ([], s))") auto
  then have l1: "length s1 \<le> length s"
    by (auto split: list.splits if_splits)
  from a s1 obtain ip s2 where ip: "int_part s1 = Some (ip, s2)"
    by (auto simp: match_number_def split: option.splits)
  obtain fp s3 where fp: "frac_part s2 = (fp, s3)" by (cases "frac_part s2") auto
  obtain ep s4 where ep: "exp_part s3 = (ep, s4)" by (cases "exp_part s3") auto
  from a s1 ip fp ep have "r = s4"
    by (auto simp: match_number_def split: if_splits)
  with l1 int_part_shorter [OF ip] frac_part_shorter [OF fp] exp_part_shorter [OF ep]
  show ?thesis by simp
qed

lemma scan_scalar_shorter: "scan_scalar lim s = Returns (v, r) \<Longrightarrow> length r < length s"
  by (cases s)
     (auto simp: scan_scalar_def split: if_splits option.splits
           dest: scanstring_shorter match_number_shorter)

text \<open>
  \<open>JSONObject\<close> and \<open>JSONArray\<close>, with the nesting kept on an explicit stack: a frame
  is an array with the elements read so far, or an object with the pairs read so far
  and the key that awaits its value. The phase is what the decoder expects next.
\<close>

datatype frame = FArr "json list" | FObj "(string \<times> json) list" "string option"

datatype phase = Value | ArrFirst | ObjFirst | Key | AfterKey | AfterValue | Done json

text \<open>A value is complete: it is the result, an element, or the value of the open key.\<close>

fun put :: "json \<Rightarrow> frame list \<Rightarrow> (phase \<times> frame list) outcome" where
  "put v [] = Returns (Done v, [])"
| "put v (FArr xs # st) = Returns (AfterValue, FArr (xs @ [v]) # st)"
| "put v (FObj ps (Some k) # st) = Returns (AfterValue, FObj (AList.update k v ps) None # st)"
| "put v (FObj ps None # st) = Raises JSONDecodeError"

text \<open>
  A value begins. \<open>scan_once\<close> enters a recursive call for an array or an object, and
  that is where \<open>RecursionError\<close> is raised.
\<close>

fun open_value :: "limits \<Rightarrow> token \<Rightarrow> frame list \<Rightarrow> (phase \<times> frame list) outcome" where
  "open_value lim (Scalar v) st = put v st"
| "open_value lim LBrack st =
     (if max_depth lim \<le> length st then Raises RecursionError
      else Returns (ArrFirst, FArr [] # st))"
| "open_value lim LBrace st =
     (if max_depth lim \<le> length st then Raises RecursionError
      else Returns (ObjFirst, FObj [] None # st))"
| "open_value lim _ st = Raises JSONDecodeError"

fun parse_step ::
  "limits \<Rightarrow> token \<Rightarrow> phase \<times> frame list \<Rightarrow> (phase \<times> frame list) outcome" where
  "parse_step lim t (Value, st) = open_value lim t st"
| "parse_step lim RBrack (ArrFirst, FArr xs # st) = put (JArr xs) st"
| "parse_step lim t (ArrFirst, st) = open_value lim t st"
| "parse_step lim RBrace (ObjFirst, FObj ps _ # st) = put (JObj ps) st"
| "parse_step lim (Scalar (JStr k)) (ObjFirst, FObj ps _ # st) =
     Returns (AfterKey, FObj ps (Some k) # st)"
| "parse_step lim (Scalar (JStr k)) (Key, FObj ps _ # st) =
     Returns (AfterKey, FObj ps (Some k) # st)"
| "parse_step lim Colon (AfterKey, st) = Returns (Value, st)"
| "parse_step lim Comma (AfterValue, FArr xs # st) = Returns (Value, FArr xs # st)"
| "parse_step lim RBrack (AfterValue, FArr xs # st) = put (JArr xs) st"
| "parse_step lim Comma (AfterValue, FObj ps k # st) = Returns (Key, FObj ps k # st)"
| "parse_step lim RBrace (AfterValue, FObj ps k # st) = put (JObj ps) st"
| "parse_step lim _ _ = Raises JSONDecodeError"

definition punctuation :: "char \<Rightarrow> token option" where
  "punctuation c =
     (if c = CHR ''{'' then Some LBrace
      else if c = CHR ''}'' then Some RBrace
      else if c = CHR ''['' then Some LBrack
      else if c = CHR '']'' then Some RBrack
      else if c = CHR '':'' then Some Colon
      else if c = CHR '','' then Some Comma
      else None)"

text \<open>
  Where the decoder scans a one-token value: where a value may begin, and, for a
  string, where a key may. Anywhere else a character that is not punctuation is a
  \<open>JSONDecodeError\<close> before anything of it is converted.
\<close>

fun scans_scalar :: "phase \<Rightarrow> char \<Rightarrow> bool" where
  "scans_scalar Value c = True"
| "scans_scalar ArrFirst c = True"
| "scans_scalar ObjFirst c = (c = CHR 0x22)"
| "scans_scalar Key c = (c = CHR 0x22)"
| "scans_scalar _ c = False"

text \<open>
  The decoder reads the text from left to right, skipping the whitespace
  \<open>[ \t\n\r]*\<close> that \<open>json.decoder\<close> allows around every token; the first thing that
  goes wrong decides the exception.
\<close>

function scan :: "limits \<Rightarrow> phase \<times> frame list \<Rightarrow> string \<Rightarrow> json outcome" where
  "scan lim st [] = (case st of (Done v, []) \<Rightarrow> Returns v | _ \<Rightarrow> Raises JSONDecodeError)"
| "scan lim st (c # cs) =
     (if is_ws c then scan lim st cs
      else
        (case punctuation c of
           Some t \<Rightarrow>
             (case parse_step lim t st of
                Raises e \<Rightarrow> Raises e
              | Returns st' \<Rightarrow> scan lim st' cs)
         | None \<Rightarrow>
             if scans_scalar (fst st) c then
               (case scan_scalar lim (c # cs) of
                  Raises e \<Rightarrow> Raises e
                | Returns (v, r) \<Rightarrow>
                    (case parse_step lim (Scalar v) st of
                       Raises e \<Rightarrow> Raises e
                     | Returns st' \<Rightarrow> scan lim st' r))
             else Raises JSONDecodeError))"
  by pat_completeness auto
termination
  by (relation "measure (\<lambda>(lim, st, s). length s)") (auto dest: scan_scalar_shorter)

text \<open>
  \<open>json.loads(s)\<close>: the value, or the exception raised: \<open>JSONDecodeError\<close>,
  \<open>RecursionError\<close> or \<open>ValueError\<close>.
\<close>

definition json_loads :: "limits \<Rightarrow> string \<Rightarrow> json outcome" where
  "json_loads lim s = scan lim (Value, []) s"

section \<open>sockets\<close>

text \<open>
  The request \<open>op\<close> of \<open>_execute_operation\<close>. \<open>json.dumps(op).encode()\<close> is its wire
  form; the model sends the dict itself, and takes the serialisation to succeed.
\<close>

record command =
  Type :: string
  Database :: string
  Table :: string
  Data :: json
  Condition :: json

text \<open>
  The world outside: for each blocking call, the milliseconds it needs and how it
  ends when it is given that long. \<open>connect_call host port\<close> stands for
  \<open>s.connect((host, int(port)))\<close>, the conversion of the port included;
  \<open>recv_call\<close> gives the bytes the peer has delivered.
\<close>

record net =
  connect_call :: "string \<Rightarrow> string \<Rightarrow> nat \<times> unit outcome"
  sendall_call :: "command \<Rightarrow> nat \<times> unit outcome"
  recv_call :: "nat \<times> string outcome"

text \<open>
  \<open>s.settimeout(t)\<close> bounds each blocking call on the socket by \<open>t\<close> seconds: a call
  that needs longer raises \<open>socket.timeout\<close>.
\<close>

definition settimeout :: "nat \<Rightarrow> nat \<times> 'a outcome \<Rightarrow> 'a outcome" where
  "settimeout t call = (if t * 1000 < fst call then Raises Timeout else snd call)"

text \<open>The calls made on sockets, each with the timeout in force.\<close>

datatype io = Connect string string nat | Sendall command nat | Recv nat nat

text \<open>\<open>str.split(sep)\<close> with a one-character separator.\<close>

fun split :: "char \<Rightarrow> string \<Rightarrow> string list" where
  "split sep [] = [[]]"
| "split sep (c # cs) =
     (if c = sep then [] # split sep cs
      else (case split sep cs of p # ps \<Rightarrow> (c # p) # ps | [] \<Rightarrow> [[c]]))"

section \<open>DatabaseGUI\<close>

datatype widget =
    db_label | db_entry | table_label | table_entry
  | data_label | data_entry | cond_label | cond_entry

text \<open>The text of a label or of the result box; \<open>ErrorOf e\<close> is \<open>f"Error: {e}"\<close>.\<close>

datatype shown = Plain string | Pretty json | ErrorOf exn

text \<open>\<open>messagebox.showerror("Error", ...)\<close>.\<close>

datatype dialog = Invalid_JSON | Failed_to_execute exn

record gui =
  node_type :: string
  node_ip_port :: string
  operation :: string
  database :: string
  table :: string
  data :: string
  condition :: string
  operations :: "string list"
  packed :: "widget list"
  status :: "shown \<times> string"
  result :: shown
  dialogs :: "dialog list"
  status_labels :: "(string \<times> string \<times> string) list"
  status_colors :: "(string \<times> string) list"
  running :: bool

definition node_configs :: "(string \<times> string) list" where
  "node_configs =
     [(''Master'', ''192.168.149.137:8000''),
      (''Slave 1'', ''192.168.149.137:8001''),
      (''Slave 2'', ''192.168.149.137:8002'')]"

text \<open>
  \<open>pack\<close> a label and its entry and \<open>insert\<close> the example value. The entries are
  bound to the StringVars, so what an entry holds is what the variable holds.
\<close>

fun present :: "widget \<Rightarrow> string \<Rightarrow> gui \<Rightarrow> gui" where
  "present db_entry v s = s\<lparr>packed := packed s @ [db_label, db_entry], database := v\<rparr>"
| "present table_entry v s = s\<lparr>packed := packed s @ [table_label, table_entry], table := v\<rparr>"
| "present data_entry v s = s\<lparr>packed := packed s @ [data_label, data_entry], data := v\<rparr>"
| "present cond_entry v s = s\<lparr>packed := packed s @ [cond_label, cond_entry], condition := v\<rparr>"
| "present _ v s = s"

definition update_fields :: "gui \<Rightarrow> gui" where
  \<open>update_fields s =
     (let s0 = s\<lparr>packed := [], database := [], table := [], data := [], condition := []\<rparr>;
          op = operation s
      in if op = ''CREATE_DB'' then present db_entry ''mydb'' s0
         else if op = ''DROP_DB'' then present db_entry ''mydb'' s0
         else if op = ''CREATE_TABLE'' then
           present data_entry ''{"id": "int", "name": "string"}''
             (present table_entry ''users'' (present db_entry ''mydb'' s0))
         else if op = ''INSERT'' then
           present data_entry ''{"id": 1, "name": "Alice"}''
             (present table_entry ''users'' (present db_entry ''mydb'' s0))
         else if op = ''UPDATE'' then
           present cond_entry ''{"id": 1}''
             (present data_entry ''{"name": "Alicia"}''
               (present table_entry ''users'' (present db_entry ''mydb'' s0)))
         else if op = ''DELETE'' then
           present cond_entry ''{"id": 1}''
             (present table_entry ''users'' (present db_entry ''mydb'' s0))
         else if op = ''SEARCH'' then
           present cond_entry ''{"id": 1}''
             (present table_entry ''users'' (present db_entry ''mydb'' s0))
         else s0)\<close>

text \<open>Lines 100 to 102 of \<open>__init__\<close>: the radio buttons, made once.\<close>

definition radio_buttons :: "string \<Rightarrow> string list" where
  "radio_buttons role =
     [''CREATE_DB'', ''CREATE_TABLE'', ''INSERT'', ''UPDATE'', ''DELETE'', ''SEARCH'']
     @ (if role = ''Master'' then [''DROP_DB''] else [])"

definition DatabaseGUI :: gui where
  "DatabaseGUI =
     update_fields
       \<lparr>node_type = ''Master'',
        node_ip_port = ''192.168.149.137:8000'',
        operation = ''CREATE_DB'',
        database = [], table = [], data = [], condition = [],
        operations = radio_buttons ''Master'',
        packed = [],
        status = (Plain [], ''#4CAF50''),
        result = Plain [],
        dialogs = [],
        status_labels = map (\<lambda>(node, _). (node, ''Checking...'', ''#FF9800'')) node_configs,
        status_colors = map (\<lambda>(node, _). (node, ''#FF9800'')) node_configs,
        running = True\<rparr>"

text \<open>
  \<open>update_node_ip\<close>; None is the KeyError of \<open>self.node_configs[...]\<close>. The combobox
  has set \<open>node_type\<close> before it calls the handler (\<open>select_node\<close>), a radio button
  has set \<open>operation\<close> before it calls \<open>update_fields\<close> (\<open>select_operation\<close>).
\<close>

definition update_node_ip :: "gui \<Rightarrow> gui option" where
  "update_node_ip s =
     (case map_of node_configs (node_type s) of
        None \<Rightarrow> None
      | Some addr \<Rightarrow> Some (update_fields (s\<lparr>node_ip_port := addr\<rparr>)))"

definition select_node :: "string \<Rightarrow> gui \<Rightarrow> gui option" where
  "select_node role s = update_node_ip (s\<lparr>node_type := role\<rparr>)"

definition select_operation :: "string \<Rightarrow> gui \<Rightarrow> gui" where
  "select_operation op s = update_fields (s\<lparr>operation := op\<rparr>)"

subsection \<open>_execute_operation\<close>

text \<open>
  Lines 261 to 272: the request, or the exception that \<open>json.loads\<close> raises, on the
  data first and then on the condition.
\<close>

definition build_op :: "limits \<Rightarrow> gui \<Rightarrow> command outcome" where
  \<open>build_op lim s =
     (case json_loads lim (if data s = [] then ''{}'' else data s) of
        Raises e \<Rightarrow> Raises e
      | Returns d \<Rightarrow>
          (case json_loads lim (if condition s = [] then ''{}'' else condition s) of
             Raises e \<Rightarrow> Raises e
           | Returns c \<Rightarrow>
               Returns \<lparr>Type = operation s, Database = database s, Table = table s,
                        Data = d, Condition = c\<rparr>))\<close>

text \<open>
  Lines 279 to 284: one socket, \<open>settimeout(10)\<close>, connect, sendall, one
  \<open>recv(4096)\<close>, decode. Returns the calls made and the text received or the
  exception raised.
\<close>

definition exchange :: "net \<Rightarrow> string \<Rightarrow> command \<Rightarrow> io list \<times> string outcome" where
  "exchange env addr op =
     (case split (CHR '':'') addr of
        [host, port] \<Rightarrow>
          (case settimeout 10 (connect_call env host port) of
             Raises e \<Rightarrow> ([Connect host port 10], Raises e)
           | Returns _ \<Rightarrow>
               (case settimeout 10 (sendall_call env op) of
                  Raises e \<Rightarrow> ([Connect host port 10, Sendall op 10], Raises e)
                | Returns _ \<Rightarrow>
                    (case settimeout 10 (recv_call env) of
                       Raises e \<Rightarrow>
                         ([Connect host port 10, Sendall op 10, Recv 4096 10], Raises e)
                     | Returns bs \<Rightarrow>
                         ([Connect host port 10, Sendall op 10, Recv 4096 10],
                          (case decode (take 4096 bs) of
                             None \<Rightarrow> Raises UnicodeDecodeError
                           | Some txt \<Rightarrow> Returns txt)))))
      | _ \<Rightarrow> ([], Raises ValueError))"

text \<open>
  Lines 285 to 299: what is shown for the text received. For SEARCH the inner
  \<open>try\<close> catches \<open>JSONDecodeError\<close> only; another exception of \<open>json.loads\<close> goes on to
  the handler of line 300.
\<close>

definition show_response :: "limits \<Rightarrow> string \<Rightarrow> string \<Rightarrow> gui \<Rightarrow> gui outcome" where
  "show_response lim ty txt s =
     (if ty = ''SEARCH'' then
        (case json_loads lim txt of
           Returns results \<Rightarrow>
             Returns (s\<lparr>result := Pretty results,
                        status := (Plain ''SEARCH completed'', ''#4CAF50'')\<rparr>)
         | Raises e \<Rightarrow>
             (case e of
                JSONDecodeError \<Rightarrow>
                  Returns (s\<lparr>result := Plain txt,
                             status := (Plain ''Error: Invalid SEARCH response'', ''#F44336'')\<rparr>)
              | _ \<Rightarrow> Raises e))
      else if prefix ''Error'' txt then
        Returns (s\<lparr>result := Plain txt, status := (Plain ''Operation failed'', ''#F44336'')\<rparr>)
      else
        Returns (s\<lparr>result := Plain txt,
                   status := (Plain (''Operation '' @ ty @ '' completed''), ''#4CAF50'')\<rparr>))"

text \<open>
  The two handlers hand their reports to the main loop with \<open>root.after(0, ...)\<close>,
  as callbacks that read the exception variable \<open>e\<close> when they run. An \<open>except\<close>
  block unbinds its variable when it ends, so a callback that reads \<open>e\<close> after that
  raises NameError and reports nothing. The callbacks run in the order given;
  \<open>early\<close> is how many of them the main loop has run when the block ends. On
  JSONDecodeError they are the dialog (reads \<open>e\<close>) and the status; on any other
  exception the dialog, the status, the emptying of the result box and the text put
  in it, of which only the emptying does not read \<open>e\<close>.
\<close>

text \<open>Lines 300 to 304, the handler of \<open>except Exception as e\<close>.\<close>

definition report_failure :: "exn \<Rightarrow> nat \<Rightarrow> gui \<Rightarrow> gui" where
  "report_failure e early s =
     s\<lparr>dialogs := dialogs s @ (if 0 < early then [Failed_to_execute e] else []),
       status := (if 1 < early then (ErrorOf e, ''#F44336'') else status s),
       result := (if 3 < early then ErrorOf e else Plain [])\<rparr>"

text \<open>
  The first \<open>try\<close> catches \<open>JSONDecodeError\<close> only (line 273). Any other exception
  of \<open>json.loads\<close> there is caught by nothing: the thread ends, with nothing shown
  and no socket made.
\<close>

definition execute_operation :: "net \<Rightarrow> limits \<Rightarrow> nat \<Rightarrow> gui \<Rightarrow> gui \<times> io list" where
  "execute_operation env lim early s =
     (case build_op lim s of
        Raises e \<Rightarrow>
          (case e of
             JSONDecodeError \<Rightarrow>
               (s\<lparr>dialogs := dialogs s @ (if 0 < early then [Invalid_JSON] else []),
                  status := (Plain ''Error: Invalid JSON'', ''#F44336'')\<rparr>, [])
           | _ \<Rightarrow> (s, []))
      | Returns op \<Rightarrow>
          (case exchange env (node_ip_port s) op of
             (calls, Raises e) \<Rightarrow> (report_failure e early s, calls)
           | (calls, Returns txt) \<Rightarrow>
               (case show_response lim (Type op) txt s of
                  Returns s' \<Rightarrow> (s', calls)
                | Raises e \<Rightarrow> (report_failure e early s, calls))))"

definition execute :: "net \<Rightarrow> limits \<Rightarrow> nat \<Rightarrow> gui \<Rightarrow> gui \<times> io list" where
  "execute env lim early s =
     execute_operation env lim early (s\<lparr>status := (Plain ''Processing...'', ''#FF9800'')\<rparr>)"

subsection \<open>check_node_status\<close>

text \<open>
  The body of the \<open>for\<close> loop, lines 144 to 153. The split is outside the \<open>try\<close>:
  None is its ValueError, which ends the thread. Everything else, the timeout
  included, is caught by the bare \<open>except\<close>.
\<close>

definition probe :: "net \<Rightarrow> string \<times> string \<Rightarrow> gui \<Rightarrow> (gui \<times> io list) option" where
  "probe env item s =
     (case split (CHR '':'') (snd item) of
        [host, port] \<Rightarrow>
          Some
            (case settimeout 2 (connect_call env host port) of
               Returns _ \<Rightarrow>
                 s\<lparr>status_colors := AList.update (fst item) ''#4CAF50'' (status_colors s),
                   status_labels :=
                     AList.update (fst item) (''Connected'', ''#4CAF50'') (status_labels s)\<rparr>
             | Raises _ \<Rightarrow>
                 s\<lparr>status_colors := AList.update (fst item) ''#F44336'' (status_colors s),
                   status_labels :=
                     AList.update (fst item) (''Disconnected'', ''#F44336'') (status_labels s)\<rparr>,
             [Connect host port 2])
      | _ \<Rightarrow> None)"

text \<open>One run of the \<open>for\<close> loop over the items given.\<close>

fun sweep :: "net \<Rightarrow> (string \<times> string) list \<Rightarrow> gui \<Rightarrow> (gui \<times> io list) option" where
  "sweep env [] s = Some (s, [])"
| "sweep env (item # items) s =
     (case probe env item s of
        None \<Rightarrow> None
      | Some (s1, calls1) \<Rightarrow>
          (case sweep env items s1 of
             None \<Rightarrow> None
           | Some (s2, calls2) \<Rightarrow> Some (s2, calls1 @ calls2)))"

definition cleanup :: "gui \<Rightarrow> gui" where
  "cleanup s = s\<lparr>running := False\<rparr>"

text \<open>
  The monitor thread beside the main thread. Where the thread stands: at the test
  of \<open>while self.running\<close>, inside the \<open>for\<close> loop with the items still to visit, at
  \<open>time.sleep(5)\<close>, returned, or dead of an uncaught exception.
\<close>

datatype pc = AtWhile | InFor "(string \<times> string) list" | AtSleep | Returned | Died

record system =
  window :: gui
  monitor :: pc
  probes :: "io list"

text \<open>
  The two threads interleave at the steps of the monitor: \<open>Monitor env\<close> is its next
  step, against the network as it is then; \<open>Cleanup\<close> is the main thread running
  \<open>cleanup\<close>.
\<close>

datatype event = Monitor net | Cleanup

fun step :: "event \<Rightarrow> system \<Rightarrow> system" where
  "step Cleanup sys = sys\<lparr>window := cleanup (window sys)\<rparr>"
| "step (Monitor env) sys =
     (case monitor sys of
        AtWhile \<Rightarrow>
          if running (window sys) then sys\<lparr>monitor := InFor node_configs\<rparr>
          else sys\<lparr>monitor := Returned\<rparr>
      | InFor [] \<Rightarrow> sys\<lparr>monitor := AtSleep\<rparr>
      | InFor (item # items) \<Rightarrow>
          (case probe env item (window sys) of
             None \<Rightarrow> sys\<lparr>monitor := Died\<rparr>
           | Some (w, calls) \<Rightarrow>
               sys\<lparr>window := w, monitor := InFor items, probes := probes sys @ calls\<rparr>)
      | AtSleep \<Rightarrow> sys\<lparr>monitor := AtWhile\<rparr>
      | Returned \<Rightarrow> sys
      | Died \<Rightarrow> sys)"

definition run :: "event list \<Rightarrow> system \<Rightarrow> system" where
  "run es sys = foldl (\<lambda>s e. step e s) sys es"

text \<open>\<open>__init__\<close> starts the thread.\<close>

definition start :: system where
  "start = \<lparr>window = DatabaseGUI, monitor = AtWhile, probes = []\<rparr>"

text \<open>The probe of an item, and the probes the \<open>for\<close> loop has still to make.\<close>

definition probe_call :: "string \<times> string \<Rightarrow> io list" where
  "probe_call item =
     (case split (CHR '':'') (snd item) of [host, port] \<Rightarrow> [Connect host port 2] | _ \<Rightarrow> [])"

definition owed :: "pc \<Rightarrow> io list" where
  "owed p = (case p of InFor items \<Rightarrow> concat (map probe_call items) | _ \<Rightarrow> [])"

fun is_monitor :: "event \<Rightarrow> bool" where
  "is_monitor (Monitor env) = True"
| "is_monitor Cleanup = False"

text \<open>The endpoint accepts a connection made under a timeout of \<open>t\<close> seconds.\<close>

definition accepts :: "net \<Rightarrow> nat \<Rightarrow> string \<Rightarrow> string \<Rightarrow> bool" where
  "accepts env t host port = (settimeout t (connect_call env host port) = Returns ())"

text \<open>
  For the proofs about the monitor: an item whose address splits in two; a thread
  that has not died and has well-formed items before it; the steps the thread still
  takes before it returns, once \<open>running\<close> is False.
\<close>

definition well_formed :: "string \<times> string \<Rightarrow> bool" where
  "well_formed item = (length (split (CHR '':'') (snd item)) = 2)"

definition alive :: "pc \<Rightarrow> bool" where
  "alive p =
     (case p of
        InFor items \<Rightarrow> list_all well_formed items \<and> length items \<le> 3
      | Died \<Rightarrow> False
      | _ \<Rightarrow> True)"

definition steps_left :: "pc \<Rightarrow> nat" where
  "steps_left p =
     (case p of InFor items \<Rightarrow> length items + 3 | AtSleep \<Rightarrow> 2 | AtWhile \<Rightarrow> 1 | _ \<Rightarrow> 0)"

subsection \<open>Example networks\<close>

text \<open>The master accepts, the slaves refuse; the reply is a server error.\<close>

definition one_up :: net where
  "one_up =
     \<lparr>connect_call = (\<lambda>host port.
          if port = ''8000'' then (5, Returns ())
          else (1, Raises (OSError ''Connection refused''))),
      sendall_call = (\<lambda>op. (0, Returns ())),
      recv_call = (20, Returns ''Error: table not found'')\<rparr>"

text \<open>Connecting takes six seconds, and so does the reply.\<close>

definition slow :: net where
  "slow =
     \<lparr>connect_call = (\<lambda>host port. (6000, Returns ())),
      sendall_call = (\<lambda>op. (0, Returns ())),
      recv_call = (6000, Returns ''OK'')\<rparr>"

text \<open>The reply takes a minute.\<close>

definition stalled :: net where
  "stalled =
     \<lparr>connect_call = (\<lambda>host port. (5, Returns ())),
      sendall_call = (\<lambda>op. (0, Returns ())),
      recv_call = (60000, Returns ''OK'')\<rparr>"

text \<open>The reply is one row.\<close>

definition rows :: net where
  \<open>rows =
     \<lparr>connect_call = (\<lambda>host port. (5, Returns ())),
      sendall_call = (\<lambda>op. (0, Returns ())),
      recv_call = (20, Returns ''[{"id":1,"name":"Alice"}]'')\<rparr>\<close>

text \<open>The reply is a byte that is not UTF-8.\<close>

definition garbled :: net where
  "garbled =
     \<lparr>connect_call = (\<lambda>host port. (5, Returns ())),
      sendall_call = (\<lambda>op. (0, Returns ())),
      recv_call = (20, Returns [CHR 0xFF])\<rparr>"

text \<open>
  Limits as an interpreter with its defaults has them: a recursion limit of 1000
  leaves somewhat fewer levels to the decoder in its thread, and \<open>int()\<close> converts
  4300 digits.
\<close>

definition cpython :: limits where
  "cpython = \<lparr>max_depth = 990, max_digits = 4300\<rparr>"

section \<open>Properties\<close>

lemma loads_empty_object:
  \<open>json_loads lim ''{}'' =
     (if max_depth lim = 0 then Raises RecursionError else Returns (JObj []))\<close>
  by (simp add: json_loads_def is_ws_def punctuation_def)

text \<open>More arrays opened than the decoder has levels for.\<close>

lemma scan_deep:
  assumes "length st \<le> max_depth lim" and "max_depth lim < length st + n"
    and "ph = Value \<or> ph = ArrFirst"
  shows "scan lim (ph, st) (replicate n (CHR ''['') @ rest) = Raises RecursionError"
  using assms
proof (induction n arbitrary: ph st)
  case 0
  then show ?case by simp
next
  case (Suc n)
  show ?case
  proof (cases "max_depth lim \<le> length st")
    case True
    with Suc.prems(3) show ?thesis
      by (auto simp: is_ws_def punctuation_def)
  next
    case False
    then have a: "length (FArr [] # st) \<le> max_depth lim" by simp
    from Suc.prems(2) have b: "max_depth lim < length (FArr [] # st) + n" by simp
    from Suc.IH [OF a b, of ArrFirst] False Suc.prems(3) show ?thesis
      by (auto simp: is_ws_def punctuation_def)
  qed
qed

lemma loads_deep:
  "max_depth lim < n \<Longrightarrow> json_loads lim (replicate n (CHR ''['')) = Raises RecursionError"
  using scan_deep [of "[]" lim n Value "[]"] by (simp add: json_loads_def)

lemma split_registered:
  "split (CHR '':'') ''192.168.149.137:8000'' = [''192.168.149.137'', ''8000'']"
  "split (CHR '':'') ''192.168.149.137:8001'' = [''192.168.149.137'', ''8001'']"
  "split (CHR '':'') ''192.168.149.137:8002'' = [''192.168.149.137'', ''8002'']"
  by code_simp+


lemma build_op_Type:
  "build_op lim s = Returns op \<Longrightarrow>
     Type op = operation s \<and> Database op = database s \<and> Table op = table s"
  by (auto simp: build_op_def split: outcome.splits)

lemma execute_operation_received:
  assumes "build_op lim s = Returns op"
    and "exchange env (node_ip_port s) op = (calls, Returns txt)"
  shows "execute_operation env lim early s =
           (case show_response lim (operation s) txt s of
              Returns s' \<Rightarrow> (s', calls)
            | Raises e \<Rightarrow> (report_failure e early s, calls))"
  using assms build_op_Type [OF assms(1)] by (simp add: execute_operation_def)

lemma snd_execute_operation:
  assumes "build_op lim s = Returns op"
  shows "snd (execute_operation env lim early s) = fst (exchange env (node_ip_port s) op)"
proof (cases "exchange env (node_ip_port s) op")
  case (Pair calls r)
  with assms show ?thesis
    by (cases r) (simp_all add: execute_operation_def split: outcome.splits)
qed

lemma execute_operation_raised:
  assumes "build_op lim s = Returns op" and "snd (exchange env (node_ip_port s) op) = Raises e"
  shows "fst (execute_operation env lim early s) =
           s\<lparr>dialogs := dialogs s @ (if 0 < early then [Failed_to_execute e] else []),
             status := (if 1 < early then (ErrorOf e, ''#F44336'') else status s),
             result := (if 3 < early then ErrorOf e else Plain [])\<rparr>"
proof (cases "exchange env (node_ip_port s) op")
  case (Pair calls r)
  with assms show ?thesis by (simp add: execute_operation_def report_failure_def)
qed

lemma exchange_calls:
  assumes "split (CHR '':'') addr = [host, port]"
  shows "prefix (fst (exchange env addr op)) [Connect host port 10, Sendall op 10, Recv 4096 10]"
    and "take 1 (fst (exchange env addr op)) = [Connect host port 10]"
    and "accepts env 10 host port \<Longrightarrow>
           take 2 (fst (exchange env addr op)) = [Connect host port 10, Sendall op 10]"
  using assms
  by (simp_all add: exchange_def accepts_def split: outcome.splits)

lemma accepts_iff:
  "accepts env t host port \<longleftrightarrow>
     fst (connect_call env host port) \<le> t * 1000 \<and> snd (connect_call env host port) = Returns ()"
  by (auto simp: accepts_def settimeout_def)

lemma settimeout_late: "t * 1000 < fst call \<Longrightarrow> settimeout t call = Raises Timeout"
  by (simp add: settimeout_def)

lemma settimeout_in_time: "\<not> t * 1000 < fst call \<Longrightarrow> settimeout t call = snd call"
  by (simp add: settimeout_def)

lemma exchange_timeout:
  assumes "split (CHR '':'') addr = [host, port]"
    and "10000 < fst (connect_call env host port) \<or>
          snd (connect_call env host port) = Returns () \<and>
            (10000 < fst (sendall_call env op) \<or>
             snd (sendall_call env op) = Returns () \<and> 10000 < fst (recv_call env))"
  shows "exchange env addr op =
           (if 10000 < fst (connect_call env host port) then [Connect host port 10]
            else if 10000 < fst (sendall_call env op)
              then [Connect host port 10, Sendall op 10]
            else [Connect host port 10, Sendall op 10, Recv 4096 10],
            Raises Timeout)"
proof (cases "10000 < fst (connect_call env host port)")
  case True
  then have "settimeout 10 (connect_call env host port) = Raises Timeout"
    by (simp add: settimeout_late)
  with assms(1) True show ?thesis by (simp add: exchange_def)
next
  case False
  with assms(2) have c: "settimeout 10 (connect_call env host port) = Returns ()"
    and rest: "10000 < fst (sendall_call env op) \<or>
             snd (sendall_call env op) = Returns () \<and> 10000 < fst (recv_call env)"
    by (simp_all add: settimeout_in_time)
  show ?thesis
  proof (cases "10000 < fst (sendall_call env op)")
    case True
    then have "settimeout 10 (sendall_call env op) = Raises Timeout"
      by (simp add: settimeout_late)
    with assms(1) c True \<open>\<not> 10000 < fst (connect_call env host port)\<close> show ?thesis
      by (simp add: exchange_def)
  next
    case nos: False
    with rest have d: "settimeout 10 (sendall_call env op) = Returns ()"
      and late: "10000 < fst (recv_call env)"
      by (simp_all add: settimeout_in_time)
    from late have "settimeout 10 (recv_call env) = Raises Timeout"
      by (simp add: settimeout_late)
    with assms(1) c d nos \<open>\<not> 10000 < fst (connect_call env host port)\<close> show ?thesis
      by (simp add: exchange_def)
  qed
qed

subsection \<open>The operations offered\<close>

text \<open>
  C1. The radio buttons are made once, in \<open>__init__\<close>, when the role is "Master".
  \<open>update_node_ip\<close> changes the address and the fields and leaves the buttons as
  they are: after the role has changed from "Master" to "Slave 1", DROP_DB is still
  among the operations offered.
\<close>

theorem drop_db_offered_to_slave:
  "map_option (\<lambda>s. (node_type s, node_ip_port s, operations s))
     (select_node ''Slave 1'' DatabaseGUI) =
   Some (''Slave 1'', ''192.168.149.137:8001'',
         [''CREATE_DB'', ''CREATE_TABLE'', ''INSERT'', ''UPDATE'', ''DELETE'', ''SEARCH'',
          ''DROP_DB''])"
  by (simp add: select_node_def update_node_ip_def node_configs_def DatabaseGUI_def
        update_fields_def radio_buttons_def Let_def)

subsection \<open>The fields presented\<close>

text \<open>
  C9. Whatever the role, choosing an operation presents exactly the entries of its
  row in the table of required fields, each under its label: the database for
  CREATE_DB and DROP_DB; database, table and data for CREATE_TABLE and INSERT;
  all four for UPDATE; database, table and condition for DELETE and SEARCH.
\<close>

theorem select_operation_packed:
  "packed (select_operation ''CREATE_DB'' (s\<lparr>node_type := role\<rparr>)) = [db_label, db_entry] \<and>
   packed (select_operation ''DROP_DB'' (s\<lparr>node_type := role\<rparr>)) = [db_label, db_entry] \<and>
   packed (select_operation ''CREATE_TABLE'' (s\<lparr>node_type := role\<rparr>)) =
     [db_label, db_entry, table_label, table_entry, data_label, data_entry] \<and>
   packed (select_operation ''INSERT'' (s\<lparr>node_type := role\<rparr>)) =
     [db_label, db_entry, table_label, table_entry, data_label, data_entry] \<and>
   packed (select_operation ''UPDATE'' (s\<lparr>node_type := role\<rparr>)) =
     [db_label, db_entry, table_label, table_entry, data_label, data_entry,
      cond_label, cond_entry] \<and>
   packed (select_operation ''DELETE'' (s\<lparr>node_type := role\<rparr>)) =
     [db_label, db_entry, table_label, table_entry, cond_label, cond_entry] \<and>
   packed (select_operation ''SEARCH'' (s\<lparr>node_type := role\<rparr>)) =
     [db_label, db_entry, table_label, table_entry, cond_label, cond_entry]"
  by (simp add: select_operation_def update_fields_def Let_def)

subsection \<open>Building the request\<close>

text \<open>
  C2, as the claim states it, fails: with the text \<open>null\<close> in the data entry the
  request is built and its Data is null, not a mapping.
\<close>

theorem data_null_counterexample:
  \<open>build_op cpython ((select_operation ''INSERT'' DatabaseGUI)\<lparr>data := ''null''\<rparr>) =
     Returns \<lparr>Type = ''INSERT'', Database = ''mydb'', Table = ''users'', Data = JNull,
              Condition = JObj []\<rparr>\<close>
  by code_simp

text \<open>
  C2, amended. In every request built, Data and Condition are the empty mapping when
  the text of their entry is empty, and otherwise the value that text parses to,
  whatever JSON value that is.
\<close>

theorem build_op_fields:
  assumes "build_op lim s = Returns c"
  shows "Type c = operation s \<and> Database c = database s \<and> Table c = table s \<and>
         (data s = [] \<longrightarrow> Data c = JObj []) \<and>
         (data s \<noteq> [] \<longrightarrow> json_loads lim (data s) = Returns (Data c)) \<and>
         (condition s = [] \<longrightarrow> Condition c = JObj []) \<and>
         (condition s \<noteq> [] \<longrightarrow> json_loads lim (condition s) = Returns (Condition c))"
  using assms
  by (auto simp: build_op_def loads_empty_object split: outcome.splits if_splits)

theorem build_op_fields_witness:
  \<open>build_op cpython (select_operation ''INSERT'' DatabaseGUI) =
      Returns \<lparr>Type = ''INSERT'', Database = ''mydb'', Table = ''users'',
               Data = JObj [(''id'', JInt 1), (''name'', JStr ''Alice'')],
               Condition = JObj []\<rparr> \<and>
    condition (select_operation ''INSERT'' DatabaseGUI) = [] \<and>
    data (select_operation ''INSERT'' DatabaseGUI) \<noteq> [] \<and>
    json_loads cpython (data (select_operation ''INSERT'' DatabaseGUI)) =
      Returns (JObj [(''id'', JInt 1), (''name'', JStr ''Alice'')])\<close>
proof -
  have h: \<open>build_op cpython (select_operation ''INSERT'' DatabaseGUI) =
      Returns \<lparr>Type = ''INSERT'', Database = ''mydb'', Table = ''users'',
               Data = JObj [(''id'', JInt 1), (''name'', JStr ''Alice'')],
               Condition = JObj []\<rparr>\<close>
    by code_simp
  have d: \<open>data (select_operation ''INSERT'' DatabaseGUI) \<noteq> []\<close>
    by code_simp
  have c: \<open>condition (select_operation ''INSERT'' DatabaseGUI) = []\<close>
    by code_simp
  from build_op_fields [OF h] d c h show ?thesis by simp
qed

text \<open>
  C3, as the claim states it, fails: a text can fail to parse with an exception
  that is not \<open>JSONDecodeError\<close>, and line 273 catches no other. With two thousand
  opening brackets in the data entry \<open>json.loads\<close> raises \<open>RecursionError\<close>: the
  execution ends with the window as it was, the status still "Processing...", and
  no invalid input reported.
\<close>

theorem uncaught_parse_error_counterexample:
  "data ((select_operation ''INSERT'' DatabaseGUI)\<lparr>data := replicate 2000 (CHR ''['')\<rparr>) \<noteq> [] \<and>
   json_loads cpython
     (data ((select_operation ''INSERT'' DatabaseGUI)\<lparr>data := replicate 2000 (CHR ''['')\<rparr>)) =
     Raises RecursionError \<and>
   execute_operation one_up cpython 0
     ((select_operation ''INSERT'' DatabaseGUI)\<lparr>data := replicate 2000 (CHR ''['')\<rparr>) =
     ((select_operation ''INSERT'' DatabaseGUI)\<lparr>data := replicate 2000 (CHR ''['')\<rparr>, []) \<and>
   status (fst (execute one_up cpython 0
     ((select_operation ''INSERT'' DatabaseGUI)\<lparr>data := replicate 2000 (CHR ''['')\<rparr>))) =
     (Plain ''Processing...'', ''#FF9800'')"
proof -
  let ?s = "(select_operation ''INSERT'' DatabaseGUI)\<lparr>data := replicate 2000 (CHR ''['')\<rparr>"
  have j: "json_loads cpython (replicate 2000 (CHR ''['')) = Raises RecursionError"
    by (rule loads_deep) (simp add: cpython_def)
  have b: "build_op cpython t = Raises RecursionError"
    if "data t = replicate 2000 (CHR ''['')" for t
    using that by (simp add: build_op_def j)
  have e: "execute_operation one_up cpython 0 t = (t, [])"
    if "data t = replicate 2000 (CHR ''['')" for t
    by (simp add: execute_operation_def b [OF that])
  have "execute_operation one_up cpython 0 ?s = (?s, [])"
    by (rule e) simp
  moreover have "status (fst (execute one_up cpython 0 ?s)) = (Plain ''Processing...'', ''#FF9800'')"
    unfolding execute_def by (subst e) simp_all
  ultimately show ?thesis using j by simp
qed

text \<open>
  C3, amended. When the first of the two texts (the data, then the condition) on
  which \<open>json.loads\<close> raises makes it raise \<open>JSONDecodeError\<close>, the execution ends with
  the status "Error: Invalid JSON"; and whatever \<open>json.loads\<close> raises there, the
  execution has made no call on any socket. (The dialog with the parser's message
  is shown only when its callback runs before the handler ends.)
\<close>

theorem invalid_json_no_io:
  assumes "json_loads lim (if data s = [] then ''{}'' else data s) = Raises e \<or>
           (\<exists>d. json_loads lim (if data s = [] then ''{}'' else data s) = Returns d) \<and>
           json_loads lim (if condition s = [] then ''{}'' else condition s) = Raises e"
  shows "snd (execute_operation env lim early s) = [] \<and>
         (e = JSONDecodeError \<longrightarrow>
            fst (execute_operation env lim early s) =
              s\<lparr>dialogs := dialogs s @ (if 0 < early then [Invalid_JSON] else []),
                status := (Plain ''Error: Invalid JSON'', ''#F44336'')\<rparr>)"
proof -
  from assms have "build_op lim s = Raises e"
    by (elim disjE exE conjE) (simp_all add: build_op_def split del: if_split)
  then show ?thesis by (cases e) (simp_all add: execute_operation_def)
qed

theorem invalid_json_no_io_witness:
  "data ((select_operation ''INSERT'' DatabaseGUI)\<lparr>data := ''not json''\<rparr>) \<noteq> [] \<and>
   json_loads cpython (data ((select_operation ''INSERT'' DatabaseGUI)\<lparr>data := ''not json''\<rparr>)) =
     Raises JSONDecodeError \<and>
   snd (execute_operation one_up cpython 0
          ((select_operation ''INSERT'' DatabaseGUI)\<lparr>data := ''not json''\<rparr>)) = [] \<and>
   status (fst (execute_operation one_up cpython 0
          ((select_operation ''INSERT'' DatabaseGUI)\<lparr>data := ''not json''\<rparr>))) =
     (Plain ''Error: Invalid JSON'', ''#F44336'')"
proof -
  let ?s = "(select_operation ''INSERT'' DatabaseGUI)\<lparr>data := ''not json''\<rparr>"
  have a: "data ?s \<noteq> [] \<and> json_loads cpython (data ?s) = Raises JSONDecodeError"
    by code_simp
  then have h: "json_loads cpython (if data ?s = [] then ''{}'' else data ?s) =
                  Raises JSONDecodeError \<or>
           (\<exists>d. json_loads cpython (if data ?s = [] then ''{}'' else data ?s) = Returns d) \<and>
           json_loads cpython (if condition ?s = [] then ''{}'' else condition ?s) =
             Raises JSONDecodeError"
    by simp
  show ?thesis using a invalid_json_no_io [OF h, of one_up 0] by simp
qed

subsection \<open>Reading the response\<close>

text \<open>
  C5, as the claim states it, fails: a payload that is not UTF-8 does not reach
  lines 286 to 293. \<open>decode()\<close> raises, the handler of line 300 runs, and neither
  are the bytes shown nor is the status "Error: Invalid SEARCH response", whether
  the callbacks of the handler run early or late.
\<close>

theorem undecodable_payload_counterexample:
  "operation (select_operation ''SEARCH'' DatabaseGUI) = ''SEARCH'' \<and>
   snd (recv_call garbled) = Returns [CHR 0xFF] \<and>
   decode [CHR 0xFF] = None \<and>
   result (fst (execute_operation garbled cpython 4 (select_operation ''SEARCH'' DatabaseGUI))) =
     ErrorOf UnicodeDecodeError \<and>
   status (fst (execute_operation garbled cpython 4 (select_operation ''SEARCH'' DatabaseGUI))) =
     (ErrorOf UnicodeDecodeError, ''#F44336'') \<and>
   result (fst (execute_operation garbled cpython 0 (select_operation ''SEARCH'' DatabaseGUI))) =
     Plain [] \<and>
   status (fst (execute_operation garbled cpython 0 (select_operation ''SEARCH'' DatabaseGUI))) =
     (Plain [], ''#4CAF50'')"
proof -
  let ?s = "select_operation ''SEARCH'' DatabaseGUI"
  let ?op = "\<lparr>Type = ''SEARCH'', Database = ''mydb'', Table = ''users'', Data = JObj [],
              Condition = JObj [(''id'', JInt 1)]\<rparr>"
  have k: "operation ?s = ''SEARCH''" by code_simp
  have b: "build_op cpython ?s = Returns ?op" by code_simp
  have r: "snd (recv_call garbled) = Returns [CHR 0xFF]" by (simp add: garbled_def)
  have d: "decode [CHR 0xFF] = None" by code_simp
  have x: "snd (exchange garbled (node_ip_port ?s) ?op) = Raises UnicodeDecodeError"
    by code_simp
  have st: "status ?s = (Plain [], ''#4CAF50'')" by code_simp
  from execute_operation_raised [OF b x, of 4] execute_operation_raised [OF b x, of 0] k r d st
  show ?thesis by simp
qed

text \<open>
  C5, amended. For SEARCH and a payload that decodes to a text: when \<open>json.loads\<close>
  returns a value, that value is what is shown and the status is "SEARCH
  completed"; when it raises \<open>JSONDecodeError\<close>, the text itself is shown and the
  status is the failure "Error: Invalid SEARCH response".
\<close>

theorem search_response:
  assumes "operation s = ''SEARCH''"
    and "build_op lim s = Returns op"
    and "exchange env (node_ip_port s) op = (calls, Returns txt)"
  shows "(\<forall>v. json_loads lim txt = Returns v \<longrightarrow>
            result (fst (execute_operation env lim early s)) = Pretty v \<and>
            status (fst (execute_operation env lim early s)) =
              (Plain ''SEARCH completed'', ''#4CAF50'')) \<and>
         (json_loads lim txt = Raises JSONDecodeError \<longrightarrow>
            result (fst (execute_operation env lim early s)) = Plain txt \<and>
            status (fst (execute_operation env lim early s)) =
              (Plain ''Error: Invalid SEARCH response'', ''#F44336''))"
  using assms(1) execute_operation_received [OF assms(2,3)]
  by (simp add: show_response_def)

theorem search_response_witness:
  \<open>operation (select_operation ''SEARCH'' DatabaseGUI) = ''SEARCH'' \<and>
   json_loads cpython ''[{"id":1,"name":"Alice"}]'' =
     Returns (JArr [JObj [(''id'', JInt 1), (''name'', JStr ''Alice'')]]) \<and>
   result (fst (execute_operation rows cpython 0 (select_operation ''SEARCH'' DatabaseGUI))) =
     Pretty (JArr [JObj [(''id'', JInt 1), (''name'', JStr ''Alice'')]]) \<and>
   status (fst (execute_operation rows cpython 0 (select_operation ''SEARCH'' DatabaseGUI))) =
     (Plain ''SEARCH completed'', ''#4CAF50'') \<and>
   json_loads cpython ''Error: table not found'' = Raises JSONDecodeError \<and>
   result (fst (execute_operation one_up cpython 0 (select_operation ''SEARCH'' DatabaseGUI))) =
     Plain ''Error: table not found'' \<and>
   status (fst (execute_operation one_up cpython 0 (select_operation ''SEARCH'' DatabaseGUI))) =
     (Plain ''Error: Invalid SEARCH response'', ''#F44336'')\<close>
proof -
  let ?s = "select_operation ''SEARCH'' DatabaseGUI"
  let ?op = "\<lparr>Type = ''SEARCH'', Database = ''mydb'', Table = ''users'', Data = JObj [],
              Condition = JObj [(''id'', JInt 1)]\<rparr>"
  let ?calls = "[Connect ''192.168.149.137'' ''8000'' 10, Sendall ?op 10, Recv 4096 10]"
  have k: "operation ?s = ''SEARCH''" by code_simp
  have b: "build_op cpython ?s = Returns ?op" by code_simp
  have x1: \<open>exchange rows (node_ip_port ?s) ?op = (?calls, Returns ''[{"id":1,"name":"Alice"}]'')\<close>
    by code_simp
  have x2: "exchange one_up (node_ip_port ?s) ?op = (?calls, Returns ''Error: table not found'')"
    by code_simp
  have p1: \<open>json_loads cpython ''[{"id":1,"name":"Alice"}]'' =
     Returns (JArr [JObj [(''id'', JInt 1), (''name'', JStr ''Alice'')]])\<close>
    by code_simp
  have p2: "json_loads cpython ''Error: table not found'' = Raises JSONDecodeError"
    by code_simp
  from search_response [OF k b x1, of 0] search_response [OF k b x2, of 0] k p1 p2
  show ?thesis by simp
qed

text \<open>
  C6. For every operation other than SEARCH, the text received is shown as it is,
  and the status is the failure "Operation failed" exactly when the text begins
  with "Error"; otherwise it reports the operation completed.
\<close>

theorem other_response:
  assumes "operation s \<noteq> ''SEARCH''"
    and "build_op lim s = Returns op"
    and "exchange env (node_ip_port s) op = (calls, Returns txt)"
  shows "result (fst (execute_operation env lim early s)) = Plain txt \<and>
         (prefix ''Error'' txt \<longrightarrow>
            status (fst (execute_operation env lim early s)) =
              (Plain ''Operation failed'', ''#F44336'')) \<and>
         (\<not> prefix ''Error'' txt \<longrightarrow>
            status (fst (execute_operation env lim early s)) =
              (Plain (''Operation '' @ operation s @ '' completed''), ''#4CAF50''))"
  using assms(1) execute_operation_received [OF assms(2,3)]
  by (simp add: show_response_def)

theorem other_response_witness:
  "operation (select_operation ''INSERT'' DatabaseGUI) \<noteq> ''SEARCH'' \<and>
   prefix ''Error'' ''Error: table not found'' \<and>
   result (fst (execute_operation one_up cpython 0 (select_operation ''INSERT'' DatabaseGUI))) =
     Plain ''Error: table not found'' \<and>
   status (fst (execute_operation one_up cpython 0 (select_operation ''INSERT'' DatabaseGUI))) =
     (Plain ''Operation failed'', ''#F44336'') \<and>
   operation (select_operation ''CREATE_DB'' DatabaseGUI) \<noteq> ''SEARCH'' \<and>
   \<not> prefix ''Error'' ''OK'' \<and>
   result (fst (execute_operation slow cpython 0 (select_operation ''CREATE_DB'' DatabaseGUI))) =
     Plain ''OK'' \<and>
   status (fst (execute_operation slow cpython 0 (select_operation ''CREATE_DB'' DatabaseGUI))) =
     (Plain ''Operation CREATE_DB completed'', ''#4CAF50'')"
proof -
  let ?s = "select_operation ''INSERT'' DatabaseGUI"
  let ?op = "\<lparr>Type = ''INSERT'', Database = ''mydb'', Table = ''users'',
              Data = JObj [(''id'', JInt 1), (''name'', JStr ''Alice'')], Condition = JObj []\<rparr>"
  let ?t = "select_operation ''CREATE_DB'' DatabaseGUI"
  let ?op2 = "\<lparr>Type = ''CREATE_DB'', Database = ''mydb'', Table = [],
              Data = JObj [], Condition = JObj []\<rparr>"
  have k: "operation ?s \<noteq> ''SEARCH''" by code_simp
  have b: "build_op cpython ?s = Returns ?op" by code_simp
  have x: "exchange one_up (node_ip_port ?s) ?op =
     ([Connect ''192.168.149.137'' ''8000'' 10, Sendall ?op 10, Recv 4096 10],
      Returns ''Error: table not found'')"
    by code_simp
  have k2: "operation ?t \<noteq> ''SEARCH'' \<and> operation ?t = ''CREATE_DB''" by code_simp
  have b2: "build_op cpython ?t = Returns ?op2" by code_simp
  have x2: "exchange slow (node_ip_port ?t) ?op2 =
     ([Connect ''192.168.149.137'' ''8000'' 10, Sendall ?op2 10, Recv 4096 10], Returns ''OK'')"
    by code_simp
  from other_response [OF k b x, of 0] other_response [OF conjunct1 [OF k2] b2 x2, of 0] k k2
  show ?thesis by simp
qed

subsection \<open>The health monitor\<close>

lemma probe_split:
  assumes "split (CHR '':'') addr = [host, port]"
  shows "probe env (node, addr) s =
     Some (s\<lparr>status_colors :=
               AList.update node (if accepts env 2 host port then ''#4CAF50'' else ''#F44336'')
                 (status_colors s),
             status_labels :=
               AList.update node
                 (if accepts env 2 host port then (''Connected'', ''#4CAF50'')
                  else (''Disconnected'', ''#F44336''))
                 (status_labels s)\<rparr>,
           [Connect host port 2])"
proof (cases "settimeout 2 (connect_call env host port)")
  case (Returns u)
  with assms show ?thesis by (simp add: probe_def accepts_def)
next
  case (Raises e)
  with assms show ?thesis by (simp add: probe_def accepts_def)
qed

text \<open>
  C7. One sweep visits the three registered endpoints in order, each with a bare
  connect under a timeout of 2 seconds. A node is green (reachable) when its
  connect returns within the timeout and red (unreachable) on any error, the
  timeout included; so the number of green nodes is the number of endpoints that
  accept and the number of red nodes the number of those that do not: with one
  that accepts and two that refuse, one green and two red.
\<close>

theorem sweep_registered:
  assumes "map fst (status_colors s) = map fst node_configs"
  shows "\<exists>s'. sweep env node_configs s =
            Some (s', [Connect ''192.168.149.137'' ''8000'' 2,
                       Connect ''192.168.149.137'' ''8001'' 2,
                       Connect ''192.168.149.137'' ''8002'' 2]) \<and>
          status_colors s' =
            [(''Master'',
                if accepts env 2 ''192.168.149.137'' ''8000'' then ''#4CAF50'' else ''#F44336''),
             (''Slave 1'',
                if accepts env 2 ''192.168.149.137'' ''8001'' then ''#4CAF50'' else ''#F44336''),
             (''Slave 2'',
                if accepts env 2 ''192.168.149.137'' ''8002'' then ''#4CAF50'' else ''#F44336'')] \<and>
          length (filter (\<lambda>x. snd x = ''#4CAF50'') (status_colors s')) =
            length (filter (accepts env 2 ''192.168.149.137'') [''8000'', ''8001'', ''8002'']) \<and>
          length (filter (\<lambda>x. snd x = ''#F44336'') (status_colors s')) =
            length (filter (\<lambda>port. \<not> accepts env 2 ''192.168.149.137'' port)
                      [''8000'', ''8001'', ''8002''])"
proof -
  define col where
    "col = (\<lambda>port. if accepts env 2 ''192.168.149.137'' port then ''#4CAF50'' else ''#F44336'')"
  define lab where
    "lab = (\<lambda>port. if accepts env 2 ''192.168.149.137'' port then (''Connected'', ''#4CAF50'')
                   else (''Disconnected'', ''#F44336''))"
  from assms obtain a b c where cols:
    "status_colors s = [(''Master'', a), (''Slave 1'', b), (''Slave 2'', c)]"
    by (auto simp: node_configs_def map_eq_Cons_conv)
  define s1 where
    "s1 = s\<lparr>status_colors := AList.update ''Master'' (col ''8000'') (status_colors s),
            status_labels := AList.update ''Master'' (lab ''8000'') (status_labels s)\<rparr>"
  define s2 where
    "s2 = s1\<lparr>status_colors := AList.update ''Slave 1'' (col ''8001'') (status_colors s1),
             status_labels := AList.update ''Slave 1'' (lab ''8001'') (status_labels s1)\<rparr>"
  define s3 where
    "s3 = s2\<lparr>status_colors := AList.update ''Slave 2'' (col ''8002'') (status_colors s2),
             status_labels := AList.update ''Slave 2'' (lab ''8002'') (status_labels s2)\<rparr>"
  have p1: "probe env (''Master'', ''192.168.149.137:8000'') s =
              Some (s1, [Connect ''192.168.149.137'' ''8000'' 2])"
    unfolding s1_def col_def lab_def by (rule probe_split) (rule split_registered)
  have p2: "probe env (''Slave 1'', ''192.168.149.137:8001'') s1 =
              Some (s2, [Connect ''192.168.149.137'' ''8001'' 2])"
    unfolding s2_def col_def lab_def by (rule probe_split) (rule split_registered)
  have p3: "probe env (''Slave 2'', ''192.168.149.137:8002'') s2 =
              Some (s3, [Connect ''192.168.149.137'' ''8002'' 2])"
    unfolding s3_def col_def lab_def by (rule probe_split) (rule split_registered)
  have sw: "sweep env node_configs s =
            Some (s3, [Connect ''192.168.149.137'' ''8000'' 2,
                       Connect ''192.168.149.137'' ''8001'' 2,
                       Connect ''192.168.149.137'' ''8002'' 2])"
    unfolding node_configs_def by (simp add: p1 p2 p3)
  have c1: "status_colors s1 = [(''Master'', col ''8000''), (''Slave 1'', b), (''Slave 2'', c)]"
    by (simp add: s1_def cols)
  have c2: "status_colors s2 =
              [(''Master'', col ''8000''), (''Slave 1'', col ''8001''), (''Slave 2'', c)]"
    by (simp add: s2_def c1)
  have c3: "status_colors s3 =
              [(''Master'', col ''8000''), (''Slave 1'', col ''8001''), (''Slave 2'', col ''8002'')]"
    by (simp add: s3_def c2)
  have g: "\<And>port. (col port = ''#4CAF50'') = accepts env 2 ''192.168.149.137'' port"
    by (simp add: col_def)
  have r: "\<And>port. (col port = ''#F44336'') = (\<not> accepts env 2 ''192.168.149.137'' port)"
    by (simp add: col_def)
  have n1: "length (filter (\<lambda>x. snd x = ''#4CAF50'') (status_colors s3)) =
            length (filter (accepts env 2 ''192.168.149.137'') [''8000'', ''8001'', ''8002''])"
    unfolding c3 by (simp add: g)
  have n2: "length (filter (\<lambda>x. snd x = ''#F44336'') (status_colors s3)) =
            length (filter (\<lambda>port. \<not> accepts env 2 ''192.168.149.137'' port)
                      [''8000'', ''8001'', ''8002''])"
    unfolding c3 by (simp add: r)
  from sw c3 n1 n2 show ?thesis
    unfolding col_def by blast
qed

theorem sweep_registered_witness:
  "map fst (status_colors DatabaseGUI) = map fst node_configs \<and>
   accepts one_up 2 ''192.168.149.137'' ''8000'' \<and>
   \<not> accepts one_up 2 ''192.168.149.137'' ''8001'' \<and>
   \<not> accepts one_up 2 ''192.168.149.137'' ''8002'' \<and>
   (\<exists>s'. sweep one_up node_configs DatabaseGUI =
            Some (s', [Connect ''192.168.149.137'' ''8000'' 2,
                       Connect ''192.168.149.137'' ''8001'' 2,
                       Connect ''192.168.149.137'' ''8002'' 2]) \<and>
          status_colors s' =
            [(''Master'', ''#4CAF50''), (''Slave 1'', ''#F44336''), (''Slave 2'', ''#F44336'')] \<and>
          length (filter (\<lambda>x. snd x = ''#4CAF50'') (status_colors s')) = 1 \<and>
          length (filter (\<lambda>x. snd x = ''#F44336'') (status_colors s')) = 2)"
proof -
  have h: "map fst (status_colors DatabaseGUI) = map fst node_configs" by code_simp
  have a: "accepts one_up 2 ''192.168.149.137'' ''8000''"
    "\<not> accepts one_up 2 ''192.168.149.137'' ''8001''"
    "\<not> accepts one_up 2 ''192.168.149.137'' ''8002''"
    by code_simp+
  from sweep_registered [OF h, of one_up] a obtain s' where
    s': "sweep one_up node_configs DatabaseGUI =
            Some (s', [Connect ''192.168.149.137'' ''8000'' 2,
                       Connect ''192.168.149.137'' ''8001'' 2,
                       Connect ''192.168.149.137'' ''8002'' 2])"
      "status_colors s' =
            [(''Master'', ''#4CAF50''), (''Slave 1'', ''#F44336''), (''Slave 2'', ''#F44336'')]"
    by auto
  have "length (filter (\<lambda>x. snd x = ''#4CAF50'') (status_colors s')) = 1 \<and>
        length (filter (\<lambda>x. snd x = ''#F44336'') (status_colors s')) = 2"
    by (simp add: s'(2))
  with s' h a show ?thesis by blast
qed

lemma probe_Some:
  "probe env item w = Some (w', calls) \<Longrightarrow> running w' = running w \<and> calls = probe_call item"
  by (auto simp: probe_def probe_call_def split: list.splits outcome.splits)

lemma probe_well_formed:
  assumes "well_formed item"
  shows "\<exists>w' calls. probe env item w = Some (w', calls)"
proof -
  from assms obtain host port where "split (CHR '':'') (snd item) = [host, port]"
    by (auto simp: well_formed_def length_Suc_conv numeral_2_eq_2)
  then show ?thesis by (simp add: probe_def)
qed

lemma length_probe_call: "well_formed item \<Longrightarrow> length (probe_call item) = 1"
  by (auto simp: well_formed_def probe_call_def length_Suc_conv numeral_2_eq_2)

lemma length_probe_calls:
  "list_all well_formed items \<Longrightarrow> length (concat (map probe_call items)) = length items"
  by (induction items) (simp_all add: length_probe_call)

lemma run_Nil: "run [] sys = sys"
  by (simp add: run_def)

lemma run_Cons: "run (e # es) sys = run es (step e sys)"
  by (simp add: run_def)

lemma run_append: "run (es @ es') sys = run es' (run es sys)"
  by (simp add: run_def)

lemma alive_node_configs: "list_all well_formed node_configs \<and> length node_configs \<le> 3"
  by (simp add: node_configs_def well_formed_def split_registered)

lemma alive_step:
  assumes "alive (monitor sys)"
  shows "alive (monitor (step e sys))"
proof (cases e)
  case Cleanup
  with assms show ?thesis by simp
next
  case (Monitor env)
  show ?thesis
  proof (cases "monitor sys")
    case AtWhile
    with Monitor alive_node_configs show ?thesis by (simp add: alive_def)
  next
    case (InFor items)
    show ?thesis
    proof (cases items)
      case Nil
      with InFor Monitor show ?thesis by (simp add: alive_def)
    next
      case (Cons item rest)
      with InFor assms have wf: "well_formed item" and rest: "list_all well_formed rest"
        and len: "length rest \<le> 3" by (simp_all add: alive_def)
      from probe_well_formed [OF wf, of env "window sys"] obtain w' calls
        where "probe env item (window sys) = Some (w', calls)" by blast
      with Cons InFor Monitor rest len show ?thesis by (simp add: alive_def)
    qed
  next
    case Died
    with assms show ?thesis by (simp add: alive_def)
  qed (use Monitor in \<open>simp_all add: alive_def\<close>)
qed

lemma alive_run: "alive (monitor sys) \<Longrightarrow> alive (monitor (run es sys))"
  by (induction es arbitrary: sys) (simp_all add: run_Nil run_Cons alive_step)

text \<open>
  Once \<open>running\<close> is False, a step of either thread leaves it False, leaves the
  probes made and the probes owed together as they were, and, when it is a step of
  the monitor, brings the monitor one step nearer to its return.
\<close>

lemma step_stopped:
  assumes "\<not> running (window sys)" and "alive (monitor sys)"
  shows "\<not> running (window (step e sys)) \<and>
         probes (step e sys) @ owed (monitor (step e sys)) = probes sys @ owed (monitor sys) \<and>
         steps_left (monitor (step e sys)) =
           steps_left (monitor sys) - (if is_monitor e then 1 else 0)"
proof (cases e)
  case Cleanup
  with assms show ?thesis by (simp add: cleanup_def)
next
  case (Monitor env)
  show ?thesis
  proof (cases "monitor sys")
    case (InFor items)
    show ?thesis
    proof (cases items)
      case Nil
      with InFor Monitor assms show ?thesis by (simp add: owed_def steps_left_def)
    next
      case (Cons item rest)
      with InFor assms(2) have wf: "well_formed item" by (simp add: alive_def)
      from probe_well_formed [OF wf, of env "window sys"] obtain w' calls
        where p: "probe env item (window sys) = Some (w', calls)" by blast
      from probe_Some [OF p] have "running w' = running (window sys)" "calls = probe_call item"
        by simp_all
      with p Cons InFor Monitor assms show ?thesis by (simp add: owed_def steps_left_def)
    qed
  qed (use Monitor assms in \<open>simp_all add: owed_def steps_left_def\<close>)
qed

lemma run_stopped:
  assumes "\<not> running (window sys)" and "alive (monitor sys)"
  shows "\<not> running (window (run es sys)) \<and>
         probes (run es sys) @ owed (monitor (run es sys)) = probes sys @ owed (monitor sys) \<and>
         steps_left (monitor (run es sys)) =
           steps_left (monitor sys) - length (filter is_monitor es)"
  using assms
proof (induction es arbitrary: sys)
  case Nil
  then show ?case by (simp add: run_Nil)
next
  case (Cons e es)
  from step_stopped [OF Cons.prems, of e]
  have s: "\<not> running (window (step e sys))"
    "probes (step e sys) @ owed (monitor (step e sys)) = probes sys @ owed (monitor sys)"
    "steps_left (monitor (step e sys)) =
       steps_left (monitor sys) - (if is_monitor e then 1 else 0)"
    by simp_all
  from Cons.IH [OF s(1) alive_step [OF Cons.prems(2)]] s(2,3) show ?case
    by (simp add: run_Cons)
qed

lemma steps_left_0: "alive p \<Longrightarrow> steps_left p = 0 \<Longrightarrow> p = Returned"
  by (cases p) (simp_all add: alive_def steps_left_def)

lemma steps_left_owed: "alive p \<Longrightarrow> steps_left p \<le> length (owed p) + 3"
  by (cases p) (simp_all add: alive_def steps_left_def owed_def length_probe_calls)

lemma owed_alive: "alive p \<Longrightarrow> length (owed p) \<le> 3"
  by (cases p) (simp_all add: alive_def owed_def length_probe_calls)

text \<open>
  C4, as the claim states it, fails: \<open>running\<close> is tested only between sweeps.
  When \<open>cleanup\<close> runs after the first probe of a sweep, the two other endpoints
  are still probed.
\<close>

theorem probes_after_cleanup_counterexample:
  "running (window (run [Monitor one_up, Monitor one_up, Cleanup] start)) = False \<and>
   probes (run [Monitor one_up, Monitor one_up, Cleanup] start) =
     [Connect ''192.168.149.137'' ''8000'' 2] \<and>
   probes (run ([Monitor one_up, Monitor one_up, Cleanup] @ [Monitor one_up, Monitor one_up]) start) =
     [Connect ''192.168.149.137'' ''8000'' 2,
      Connect ''192.168.149.137'' ''8001'' 2,
      Connect ''192.168.149.137'' ''8002'' 2]"
  by code_simp

text \<open>
  C4, amended. Once \<open>cleanup\<close> has run, whatever the two threads do next: \<open>running\<close>
  stays False and no new sweep starts; the only further probes are those of the
  endpoints still to visit in the sweep in progress, three at most, in their order;
  and when the monitor has taken as many steps as there are such endpoints and
  three more, it has probed them all and has returned.
\<close>

theorem cleanup_ends_monitor:
  assumes "sys = run (before @ [Cleanup]) start"
  shows "\<not> running (window (run after sys)) \<and>
         length (owed (monitor sys)) \<le> 3 \<and>
         probes (run after sys) @ owed (monitor (run after sys)) =
           probes sys @ owed (monitor sys) \<and>
         (length (owed (monitor sys)) + 3 \<le> length (filter is_monitor after) \<longrightarrow>
            monitor (run after sys) = Returned \<and>
            probes (run after sys) = probes sys @ owed (monitor sys))"
proof -
  from assms have sys: "sys = step Cleanup (run before start)"
    by (simp add: run_append run_Cons run_Nil)
  then have nr: "\<not> running (window sys)" by (simp add: cleanup_def)
  have "alive (monitor start)" by (simp add: start_def alive_def)
  then have "alive (monitor (run before start))" by (rule alive_run)
  then have al: "alive (monitor sys)" unfolding sys by (rule alive_step)
  from run_stopped [OF nr al, of after]
  have r: "\<not> running (window (run after sys))"
    "probes (run after sys) @ owed (monitor (run after sys)) = probes sys @ owed (monitor sys)"
    "steps_left (monitor (run after sys)) =
       steps_left (monitor sys) - length (filter is_monitor after)"
    by simp_all
  have fin: "monitor (run after sys) = Returned \<and>
             probes (run after sys) = probes sys @ owed (monitor sys)"
    if "length (owed (monitor sys)) + 3 \<le> length (filter is_monitor after)"
  proof -
    from that steps_left_owed [OF al] r(3)
    have "steps_left (monitor (run after sys)) = 0" by simp
    with alive_run [OF al, of after] have "monitor (run after sys) = Returned"
      by (rule steps_left_0)
    with r(2) show ?thesis by (simp add: owed_def)
  qed
  from r(1,2) owed_alive [OF al] fin show ?thesis by blast
qed

theorem cleanup_ends_monitor_witness:
  "owed (monitor (run ([Monitor one_up, Monitor one_up] @ [Cleanup]) start)) =
     [Connect ''192.168.149.137'' ''8001'' 2, Connect ''192.168.149.137'' ''8002'' 2] \<and>
   probes (run ([Monitor one_up, Monitor one_up] @ [Cleanup]) start) =
     [Connect ''192.168.149.137'' ''8000'' 2] \<and>
   length (owed (monitor (run ([Monitor one_up, Monitor one_up] @ [Cleanup]) start))) + 3 \<le>
     length (filter is_monitor
       [Monitor one_up, Monitor one_up, Monitor one_up, Monitor one_up, Monitor one_up]) \<and>
   monitor (run [Monitor one_up, Monitor one_up, Monitor one_up, Monitor one_up, Monitor one_up]
     (run ([Monitor one_up, Monitor one_up] @ [Cleanup]) start)) = Returned \<and>
   probes (run [Monitor one_up, Monitor one_up, Monitor one_up, Monitor one_up, Monitor one_up]
     (run ([Monitor one_up, Monitor one_up] @ [Cleanup]) start)) =
     [Connect ''192.168.149.137'' ''8000'' 2,
      Connect ''192.168.149.137'' ''8001'' 2,
      Connect ''192.168.149.137'' ''8002'' 2]"
proof -
  let ?sys = "run ([Monitor one_up, Monitor one_up] @ [Cleanup]) start"
  let ?after = "[Monitor one_up, Monitor one_up, Monitor one_up, Monitor one_up, Monitor one_up]"
  have o: "owed (monitor ?sys) =
     [Connect ''192.168.149.137'' ''8001'' 2, Connect ''192.168.149.137'' ''8002'' 2]"
    by code_simp
  have p: "probes ?sys = [Connect ''192.168.149.137'' ''8000'' 2]" by code_simp
  have n: "length (filter is_monitor ?after) = 5" by simp
  from cleanup_ends_monitor [OF refl, of ?after "[Monitor one_up, Monitor one_up]"] o p n
  show ?thesis by simp
qed

subsection \<open>The timeout of an execution\<close>

text \<open>
  C8, as the claim states it, fails: the timeout bounds each blocking call, not
  their sum. With a connect of six seconds and a reply after six more, the
  execution takes twelve seconds and completes.
\<close>

theorem combined_budget_counterexample:
  "fst (connect_call slow ''192.168.149.137'' ''8000'') +
     fst (sendall_call slow \<lparr>Type = ''CREATE_DB'', Database = ''mydb'', Table = [],
                              Data = JObj [], Condition = JObj []\<rparr>) +
     fst (recv_call slow) = 12000 \<and>
   snd (execute_operation slow cpython 0 DatabaseGUI) =
     [Connect ''192.168.149.137'' ''8000'' 10,
      Sendall \<lparr>Type = ''CREATE_DB'', Database = ''mydb'', Table = [],
               Data = JObj [], Condition = JObj []\<rparr> 10,
      Recv 4096 10] \<and>
   result (fst (execute_operation slow cpython 0 DatabaseGUI)) = Plain ''OK'' \<and>
   status (fst (execute_operation slow cpython 0 DatabaseGUI)) =
     (Plain ''Operation CREATE_DB completed'', ''#4CAF50'')"
proof -
  let ?op = "\<lparr>Type = ''CREATE_DB'', Database = ''mydb'', Table = [],
              Data = JObj [], Condition = JObj []\<rparr>"
  have k: "operation DatabaseGUI = ''CREATE_DB''" by code_simp
  have b: "build_op cpython DatabaseGUI = Returns ?op" by code_simp
  have x: "exchange slow (node_ip_port DatabaseGUI) ?op =
     ([Connect ''192.168.149.137'' ''8000'' 10, Sendall ?op 10, Recv 4096 10], Returns ''OK'')"
    by code_simp
  have t: "fst (connect_call slow ''192.168.149.137'' ''8000'') + fst (sendall_call slow ?op) +
     fst (recv_call slow) = 12000"
    by (simp add: slow_def)
  from execute_operation_received [OF b x, of 0] k t show ?thesis
    by (simp add: show_response_def)
qed

text \<open>
  C8, amended. Every call an execution makes on its socket is made under the one
  timeout of 10 seconds, which bounds the connect, the send and the receive each on
  its own. When the connect, or after it the send, or after both the receive, needs
  more than 10 seconds, that call is the last one made and the execution ends in
  its handler with the timeout: the result box is emptied and no response is shown.
  (The dialog, the status and the text that report the timeout appear as far as
  their callbacks run early.)
\<close>

theorem timeout_each_call:
  assumes "build_op lim s = Returns op" and "split (CHR '':'') (node_ip_port s) = [host, port]"
  shows "prefix (snd (execute_operation env lim early s))
           [Connect host port 10, Sendall op 10, Recv 4096 10] \<and>
         (10000 < fst (connect_call env host port) \<or>
          snd (connect_call env host port) = Returns () \<and>
            (10000 < fst (sendall_call env op) \<or>
             snd (sendall_call env op) = Returns () \<and> 10000 < fst (recv_call env))
          \<longrightarrow> snd (execute_operation env lim early s) =
                (if 10000 < fst (connect_call env host port) then [Connect host port 10]
                 else if 10000 < fst (sendall_call env op)
                   then [Connect host port 10, Sendall op 10]
                 else [Connect host port 10, Sendall op 10, Recv 4096 10]) \<and>
              fst (execute_operation env lim early s) =
                s\<lparr>dialogs := dialogs s @ (if 0 < early then [Failed_to_execute Timeout] else []),
                  status := (if 1 < early then (ErrorOf Timeout, ''#F44336'') else status s),
                  result := (if 3 < early then ErrorOf Timeout else Plain [])\<rparr>)"
proof (intro conjI impI)
  show "prefix (snd (execute_operation env lim early s))
           [Connect host port 10, Sendall op 10, Recv 4096 10]"
    unfolding snd_execute_operation [OF assms(1)] by (rule exchange_calls(1) [OF assms(2)])
next
  assume late: "10000 < fst (connect_call env host port) \<or>
          snd (connect_call env host port) = Returns () \<and>
            (10000 < fst (sendall_call env op) \<or>
             snd (sendall_call env op) = Returns () \<and> 10000 < fst (recv_call env))"
  note x = exchange_timeout [OF assms(2) late]
  show "snd (execute_operation env lim early s) =
                (if 10000 < fst (connect_call env host port) then [Connect host port 10]
                 else if 10000 < fst (sendall_call env op)
                   then [Connect host port 10, Sendall op 10]
                 else [Connect host port 10, Sendall op 10, Recv 4096 10])"
    unfolding snd_execute_operation [OF assms(1)] x by (rule fst_conv)
  from x have "snd (exchange env (node_ip_port s) op) = Raises Timeout" by simp
  then show "fst (execute_operation env lim early s) =
           s\<lparr>dialogs := dialogs s @ (if 0 < early then [Failed_to_execute Timeout] else []),
             status := (if 1 < early then (ErrorOf Timeout, ''#F44336'') else status s),
             result := (if 3 < early then ErrorOf Timeout else Plain [])\<rparr>"
    by (rule execute_operation_raised [OF assms(1)])
qed

theorem timeout_each_call_witness:
  "build_op cpython DatabaseGUI =
     Returns \<lparr>Type = ''CREATE_DB'', Database = ''mydb'', Table = [],
           Data = JObj [], Condition = JObj []\<rparr> \<and>
   split (CHR '':'') (node_ip_port DatabaseGUI) = [''192.168.149.137'', ''8000''] \<and>
   snd (connect_call stalled ''192.168.149.137'' ''8000'') = Returns () \<and>
   snd (sendall_call stalled \<lparr>Type = ''CREATE_DB'', Database = ''mydb'', Table = [],
           Data = JObj [], Condition = JObj []\<rparr>) = Returns () \<and>
   10000 < fst (recv_call stalled) \<and>
   status (fst (execute_operation stalled cpython 4 DatabaseGUI)) = (ErrorOf Timeout, ''#F44336'') \<and>
   result (fst (execute_operation stalled cpython 4 DatabaseGUI)) = ErrorOf Timeout \<and>
   result (fst (execute_operation stalled cpython 0 DatabaseGUI)) = Plain [] \<and>
   snd (execute_operation stalled cpython 0 DatabaseGUI) =
     [Connect ''192.168.149.137'' ''8000'' 10,
      Sendall \<lparr>Type = ''CREATE_DB'', Database = ''mydb'', Table = [],
               Data = JObj [], Condition = JObj []\<rparr> 10,
      Recv 4096 10]"
proof -
  let ?op = "\<lparr>Type = ''CREATE_DB'', Database = ''mydb'', Table = [],
              Data = JObj [], Condition = JObj []\<rparr>"
  have b: "build_op cpython DatabaseGUI = Returns ?op" by code_simp
  have a: "split (CHR '':'') (node_ip_port DatabaseGUI) = [''192.168.149.137'', ''8000'']"
    by code_simp
  have e: "snd (connect_call stalled ''192.168.149.137'' ''8000'') = Returns ()"
    "snd (sendall_call stalled ?op) = Returns ()"
    "10000 < fst (recv_call stalled)"
    "\<not> 10000 < fst (connect_call stalled ''192.168.149.137'' ''8000'')"
    "\<not> 10000 < fst (sendall_call stalled ?op)"
    by (simp_all add: stalled_def)
  from timeout_each_call [OF b a, of stalled 4] timeout_each_call [OF b a, of stalled 0] b a e
  show ?thesis by simp
qed

subsection \<open>No check of the role\<close>



end
